theory Spec2Isabelle
  imports Complex_Main
begin

section \<open>Load shape controller: \<open>WaveShape\<close> of \<open>src/tests/load/locustfile.py\<close>\<close>

text \<open>
  Every entry of \<open>WaveShape.stages\<close> is a dictionary literal with exactly the three keys
  \<open>"duration"\<close>, \<open>"users"\<close> and \<open>"spawn_rate"\<close>, each bound to an integer; it is used as
  a struct, so it is a record here. The run time that \<open>get_run_time\<close> returns is a
  Python float; Python compares a float with an int by their exact numeric values, so
  the run time is a real number and the comparison is the one on the reals.
\<close>

record stage =
  duration :: int
  users :: int
  spawn_rate :: int

definition stages :: "stage list" where
  "stages =
    [\<lparr>duration = 60, users = 100, spawn_rate = 10\<rparr>,
     \<lparr>duration = 120, users = 500, spawn_rate = 20\<rparr>,
     \<lparr>duration = 180, users = 1000, spawn_rate = 50\<rparr>,
     \<lparr>duration = 240, users = 2000, spawn_rate = 100\<rparr>,
     \<lparr>duration = 300, users = 500, spawn_rate = 50\<rparr>]"

text \<open>
  The body of \<open>tick\<close> after \<open>run_time\<close> has been read: the \<open>for stage in self.stages\<close>
  loop with its early \<open>return tick_data\<close>, and \<open>return None\<close> after the loop.
\<close>

fun tick :: "stage list \<Rightarrow> real \<Rightarrow> (int \<times> int) option" where
  "tick [] run_time = None"
| "tick (stage # rest) run_time =
     (if run_time < real_of_int (duration stage)
      then (let tick_data = (users stage, spawn_rate stage) in Some tick_data)
      else tick rest run_time)"

text \<open>
  The method \<open>tick(self)\<close> with its effects made explicit. The shape object holds the
  stage list that \<open>self.stages\<close> reads; the value that \<open>self.get_run_time()\<close> returns
  comes from the harness's clock and is an input. The method returns its result
  together with the object as it is after the call: the body assigns to the locals
  \<open>run_time\<close>, \<open>stage\<close> and \<open>tick_data\<close> only.
\<close>

record wave_shape =
  self_stages :: "stage list"

definition tick_call :: "real \<Rightarrow> wave_shape \<Rightarrow> (int \<times> int) option \<times> wave_shape" where
  "tick_call elapsed self =
     (let run_time = elapsed
      in (tick (self_stages self) run_time, self))"

definition WaveShape :: wave_shape where
  "WaveShape = \<lparr>self_stages = stages\<rparr>"

text \<open>The stage list of the spec's worked example.\<close>

definition example_stages :: "stage list" where
  "example_stages =
    [\<lparr>duration = 60, users = 100, spawn_rate = 10\<rparr>,
     \<lparr>duration = 120, users = 500, spawn_rate = 20\<rparr>,
     \<lparr>duration = 180, users = 1000, spawn_rate = 50\<rparr>]"

section \<open>Virtual user: \<open>VibeZUser\<close> of \<open>src/tests/load/locustfile.py\<close>\<close>

subsection \<open>Randomness, requests and exceptions\<close>

text \<open>
  Random draws are explicit arguments. \<open>random.random()\<close> yields a float \<open>u\<close> with
  \<open>0 \<le> u < 1\<close>; \<open>random.uniform(a, b)\<close> is \<open>a + (b - a) * random()\<close>;
  \<open>random.choice(seq)\<close> is \<open>seq[i]\<close> for an index \<open>i\<close> drawn below \<open>len(seq)\<close>, and
  raises \<open>IndexError\<close> when there is no such element.
\<close>

datatype exn = Timeout | ConnectionError | IndexError | OtherException string

definition uniform :: "real \<Rightarrow> real \<Rightarrow> real \<Rightarrow> real" where
  "uniform a b u = a + (b - a) * u"

definition choice :: "'a list \<Rightarrow> nat \<Rightarrow> exn + 'a" where
  "choice seq i = (if i < length seq then Inr (seq ! i) else Inl IndexError)"

text \<open>
  A request as \<open>self.client.get(path, timeout=..., name=...)\<close> issues it, the response
  it may return, and the client as a function from the request to its outcome: an
  exception raised (\<open>Inl\<close>) or a response returned (\<open>Inr\<close>).
\<close>

record request =
  path :: string
  timeout :: "real option"
  name :: string

record response =
  status_code :: int

type_synonym client = "request \<Rightarrow> exn + response"

text \<open>What a task does that the outside can see, in order.\<close>

datatype effect = Sleep real | Get request

subsection \<open>Think time\<close>

text \<open>
  Modelled from the spec: \<open>between\<close> is imported from the load-test harness and is not
  among the sources. The spec's \<open>thinkTime()\<close> "returns a value drawn uniformly from the
  configured ThinkTimeRange (inclusive bounds)": the value at the fraction \<open>u\<close> of the
  way from \<open>min_wait\<close> to \<open>max_wait\<close>, for a uniform draw \<open>u\<close> with \<open>0 \<le> u \<le> 1\<close>.
\<close>

definition between :: "real \<Rightarrow> real \<Rightarrow> real \<Rightarrow> real" where
  "between min_wait max_wait u = min_wait + u * (max_wait - min_wait)"

text \<open>The arguments of \<open>wait_time = between(1, 5)\<close> in \<open>VibeZUser\<close>.\<close>

definition wait_time_range :: "real \<times> real" where
  "wait_time_range = (1, 5)"

definition wait_time :: "real \<Rightarrow> real" where
  "wait_time u = between (fst wait_time_range) (snd wait_time_range) u"

text \<open>\<open>wait_time = between(5,10)\<close> in \<open>ApiUser\<close> and \<open>WSUser\<close> of \<open>locustfile.py\<close>.\<close>

definition ApiUser_wait_time :: "real \<Rightarrow> real" where
  "ApiUser_wait_time u = between 5 10 u"

subsection \<open>The WS Fallback task\<close>

text \<open>Python's \<open>str\<close> of an integer, for the f-string of the failure message.\<close>

definition digit_char :: "nat \<Rightarrow> char" where
  "digit_char d = char_of (48 + d)"

fun str_nat :: "nat \<Rightarrow> string" where
  "str_nat n = (if n < 10 then [digit_char n] else str_nat (n div 10) @ [digit_char (n mod 10)])"

definition str_int :: "int \<Rightarrow> string" where
  "str_int i = (if i < 0 then CHR ''-'' # str_nat (nat (- i)) else str_nat (nat i))"

text \<open>
  What the \<open>with ... as response\<close> block records on the response it caught:
  \<open>response.success()\<close> or \<open>response.failure(message)\<close>.
\<close>

datatype recorded = Success | Failure string

definition websocket_fallback_simulation :: "response \<Rightarrow> recorded" where
  "websocket_fallback_simulation response =
     (if status_code response \<in> set [200, 401, 403]
      then Success
      else Failure (''Unexpected status: '' @ str_int (status_code response)))"

subsection \<open>The chaos task\<close>

text \<open>The arguments of \<open>random.uniform(0.5, 2.0)\<close> in the latency branch.\<close>

definition latency_range :: "real \<times> real" where
  "latency_range = (1 / 2, 2)"

definition latency_pause :: "real \<Rightarrow> real" where
  "latency_pause u = uniform (fst latency_range) (snd latency_range) u"

definition range_width :: "real \<times> real \<Rightarrow> real" where
  "range_width r = snd r - fst r"

definition chaos_actions :: "string list" where
  "chaos_actions = [''latency'', ''drop'', ''normal'']"

text \<open>
  The \<open>if\<close>/\<open>elif\<close>/\<open>else\<close> of \<open>chaos_monkey\<close> for a chosen action. The result is the
  trace of effects and how the task ends: an exception that leaves it (\<open>Inl\<close>) or a
  normal return (\<open>Inr ()\<close>). A raising \<open>self.client.get\<close> leaves the latency and the
  normal branch; in the drop branch the bare \<open>except: pass\<close> catches it.
\<close>

definition chaos_branch :: "client \<Rightarrow> string \<Rightarrow> real \<Rightarrow> effect list \<times> (exn + unit)" where
  "chaos_branch client action u =
     (if action = ''latency'' then
        (let req = \<lparr>path = ''/api/health'', timeout = None, name = ''Chaos: Latency''\<rparr>
         in ([Sleep (latency_pause u), Get req],
             (case client req of Inl e \<Rightarrow> Inl e | Inr _ \<Rightarrow> Inr ())))
      else if action = ''drop'' then
        (let req = \<lparr>path = ''/api/health'', timeout = Some (1 / 1000),
                    name = ''Chaos: Packet Drop''\<rparr>
         in ([Get req],
             (case client req of Inl e \<Rightarrow> Inr () | Inr _ \<Rightarrow> Inr ())))
      else
        (let req = \<lparr>path = ''/api/health'', timeout = None, name = ''Chaos: Normal''\<rparr>
         in ([Get req],
             (case client req of Inl e \<Rightarrow> Inl e | Inr _ \<Rightarrow> Inr ()))))"

text \<open>
  The whole task: \<open>i\<close> is the index that \<open>random.choice\<close> draws, \<open>u\<close> the draw of
  \<open>random.uniform\<close>.
\<close>

definition chaos_monkey :: "client \<Rightarrow> nat \<Rightarrow> real \<Rightarrow> effect list \<times> (exn + unit)" where
  "chaos_monkey client i u =
     (case choice chaos_actions i of
        Inl e \<Rightarrow> ([], Inl e)
      | Inr action \<Rightarrow> chaos_branch client action u)"

text \<open>
  The chance of an action under \<open>random.choice\<close>, whose index is equally likely to be
  any of \<open>0, ..., len(seq) - 1\<close>: the share of the indices that select it.
\<close>

definition chaos_action_probability :: "string \<Rightarrow> real" where
  "chaos_action_probability action =
     real (length (filter (\<lambda>i. choice chaos_actions i = Inr action) [0..<length chaos_actions]))
       / real (length chaos_actions)"

subsection \<open>How a request is counted\<close>

text \<open>
  Modelled from the spec: the harness that records the outcome of every request is not
  among the sources. The spec tags an outcome \<open>success\<close>, \<open>expectedFailure\<close> or
  \<open>unexpectedFailure\<close>, and an action that declares no success set of its own has the
  default "2xx is success", where "by default any non-2xx response is
  \<open>unexpectedFailure\<close>". A request that ends in an exception has brought no 2xx response.
\<close>

datatype outcome = success | expectedFailure | unexpectedFailure



text \<open>
  A client on which every request times out, as the timeout of 0.001 seconds in the
  drop branch is meant to force.
\<close>

definition dropping_client :: client where
  "dropping_client req = Inl Timeout"

subsection \<open>Task weights\<close>

text \<open>The \<open>@task(weight)\<close> decorators of \<open>VibeZUser\<close>, in the order of the class body.\<close>

definition tasks :: "(string \<times> nat) list" where
  "tasks =
    [(''index'', 10),
     (''view_room'', 5),
     (''auth_callback_smoke'', 2),
     (''websocket_fallback_simulation'', 3),
     (''chaos_monkey'', 1)]"

text \<open>
  Modelled from the spec: the harness's task selection is not among the sources. The
  spec's \<open>selectAction()\<close> returns action \<open>i\<close> with probability \<open>weight_i / \<Sum>weight_j\<close>,
  independently across calls: a uniform draw from the list in which every task occurs
  as often as its weight says.
\<close>

definition weighted_tasks :: "(string \<times> nat) list \<Rightarrow> string list" where
  "weighted_tasks ts = concat (map (\<lambda>(task, weight). replicate weight task) ts)"

text \<open>
  The joint draws of one step of a user, all equally likely: the index \<open>t\<close> of the task
  in the weighted list and the index \<open>i\<close> that \<open>random.choice\<close> draws inside
  \<open>chaos_monkey\<close>. \<open>chaos_draws\<close> keeps the draws at which the task is \<open>chaos_monkey\<close>;
  the chance of a sub-branch, given that the chaos task runs, is the share of those
  draws at which \<open>chaos_monkey\<close> does what that sub-branch does.
\<close>

definition chaos_draws :: "(string \<times> nat) list \<Rightarrow> (nat \<times> nat) list" where
  "chaos_draws ts =
     filter (\<lambda>(t, i). weighted_tasks ts ! t = ''chaos_monkey'')
       (List.product [0..<length (weighted_tasks ts)] [0..<length chaos_actions])"

definition chaos_branch_probability ::
    "(string \<times> nat) list \<Rightarrow> client \<Rightarrow> real \<Rightarrow> string \<Rightarrow> real" where
  "chaos_branch_probability ts client u action =
     real (length (filter (\<lambda>(t, i). chaos_monkey client i u = chaos_branch client action u)
                     (chaos_draws ts)))
       / real (length (chaos_draws ts))"

section \<open>Properties of the load shape controller\<close>

lemma tick_None_iff:
  "tick ss e = None \<longleftrightarrow> (\<forall>s \<in> set ss. real_of_int (duration s) \<le> e)"
  by (induction ss) (auto simp: Let_def)

lemma tick_Some_first:
  "tick ss e = Some r \<Longrightarrow>
   \<exists>i < length ss. e < real_of_int (duration (ss ! i))
      \<and> (\<forall>j < i. real_of_int (duration (ss ! j)) \<le> e)
      \<and> r = (users (ss ! i), spawn_rate (ss ! i))"
proof (induction ss)
  case Nil
  then show ?case by simp
next
  case (Cons s ss)
  show ?case
  proof (cases "e < real_of_int (duration s)")
    case True
    with Cons.prems have "r = (users s, spawn_rate s)" by (simp add: Let_def)
    with True show ?thesis by (intro exI [of _ 0]) simp
  next
    case False
    with Cons.prems have "tick ss e = Some r" by simp
    from Cons.IH [OF this] obtain i where i: "i < length ss"
      "e < real_of_int (duration (ss ! i))"
      "\<forall>j < i. real_of_int (duration (ss ! j)) \<le> e"
      "r = (users (ss ! i), spawn_rate (ss ! i))" by blast
    have "\<forall>j < Suc i. real_of_int (duration ((s # ss) ! j)) \<le> e"
    proof (intro allI impI)
      fix j assume "j < Suc i"
      then show "real_of_int (duration ((s # ss) ! j)) \<le> e"
        using False i(3) by (cases j) auto
    qed
    with i show ?thesis by (intro exI [of _ "Suc i"]) simp
  qed
qed

text \<open>
  C1. For every stage list and every elapsed time (non-negative or not), \<open>tick\<close> returns
  the pair \<open>(users, spawn_rate)\<close> of the first stage, in list order, whose duration
  boundary is strictly greater than the elapsed time, and returns \<open>None\<close> when the
  elapsed time has reached every boundary. On the stage list
  \<open>[(60,100,10), (120,500,20), (180,1000,50)]\<close>: \<open>tick(30) = (100,10)\<close>,
  \<open>tick(60) = (500,20)\<close> and \<open>tick(200) = None\<close>.
\<close>

theorem tick_first_stage_beyond_elapsed:
  "((\<exists>i < length ss. elapsed < real_of_int (duration (ss ! i))
        \<and> (\<forall>j < i. real_of_int (duration (ss ! j)) \<le> elapsed)
        \<and> tick ss elapsed = Some (users (ss ! i), spawn_rate (ss ! i)))
    \<or> ((\<forall>s \<in> set ss. real_of_int (duration s) \<le> elapsed) \<and> tick ss elapsed = None))
   \<and> tick example_stages 30 = Some (100, 10)
   \<and> tick example_stages 60 = Some (500, 20)
   \<and> tick example_stages 200 = None"
proof -
  have general: "(\<exists>i < length ss. elapsed < real_of_int (duration (ss ! i))
        \<and> (\<forall>j < i. real_of_int (duration (ss ! j)) \<le> elapsed)
        \<and> tick ss elapsed = Some (users (ss ! i), spawn_rate (ss ! i)))
    \<or> ((\<forall>s \<in> set ss. real_of_int (duration s) \<le> elapsed) \<and> tick ss elapsed = None)"
  proof (cases "tick ss elapsed")
    case None
    then show ?thesis using tick_None_iff [of ss elapsed] by simp
  next
    case (Some r)
    from tick_Some_first [OF this] Some show ?thesis by blast
  qed
  have "tick example_stages 30 = Some (100, 10)"
    by (simp add: example_stages_def Let_def)
  moreover have "tick example_stages 60 = Some (500, 20)"
    by (simp add: example_stages_def Let_def)
  moreover have "tick example_stages 200 = None"
    by (simp add: example_stages_def Let_def)
  ultimately show ?thesis using general by blast
qed

theorem tick_first_stage_beyond_elapsed_witness:
  "(\<exists>i < length example_stages. (60::real) < real_of_int (duration (example_stages ! i))
        \<and> (\<forall>j < i. real_of_int (duration (example_stages ! j)) \<le> 60)
        \<and> tick example_stages 60 = Some (users (example_stages ! i), spawn_rate (example_stages ! i)))
   \<and> tick example_stages 60 = Some (500, 20)
   \<and> \<not> (\<forall>s \<in> set example_stages. real_of_int (duration s) \<le> 60)"
proof -
  have not_all: "\<not> (\<forall>s \<in> set example_stages. real_of_int (duration s) \<le> 60)"
    by (simp add: example_stages_def)
  with tick_first_stage_beyond_elapsed [of example_stages 60] show ?thesis by blast
qed

text \<open>
  C6. With an empty stage list, \<open>tick\<close> returns \<open>None\<close> at every elapsed time; the call
  ends by the \<open>return None\<close> after the loop, with no exception and the object unchanged.
\<close>

theorem tick_empty_stages:
  "tick [] elapsed = None
   \<and> tick_call elapsed \<lparr>self_stages = []\<rparr> = (None, \<lparr>self_stages = []\<rparr>)"
  by (simp add: tick_call_def)

text \<open>
  C7. \<open>tick\<close> is a pure function of the elapsed time: two calls in a row at the same
  elapsed time return the same result, and after each call the shape object, its stage
  list included, is what it was before.
\<close>

theorem tick_call_pure:
  assumes "tick_call elapsed self = (r1, self1)"
      and "tick_call elapsed self1 = (r2, self2)"
  shows "r1 = r2 \<and> self1 = self \<and> self2 = self \<and> self_stages self2 = self_stages self"
  using assms by (auto simp: tick_call_def)

theorem tick_call_pure_witness:
  "tick_call 30 WaveShape = (Some (100, 10), WaveShape)
   \<and> fst (tick_call 30 (snd (tick_call 30 WaveShape))) = Some (100, 10)
   \<and> snd (tick_call 30 (snd (tick_call 30 WaveShape))) = WaveShape"
proof -
  have c: "tick_call 30 WaveShape = (Some (100, 10), WaveShape)"
    by (simp add: tick_call_def WaveShape_def stages_def)
  from tick_call_pure [OF c c] c show ?thesis by simp
qed

text \<open>
  C8. The duration boundaries of the configured stages are 60, 120, 180, 240, 300 and
  strictly increase from each stage to the next.
\<close>

theorem stages_strictly_increasing:
  "map duration stages = [60, 120, 180, 240, 300]
   \<and> sorted_wrt (<) (map duration stages)"
  by (simp add: stages_def)

text \<open>
  C10. On the configured five stages, \<open>tick\<close> returns \<open>None\<close> exactly when the elapsed
  time is at least 300; before 300 it returns a \<open>(users, spawn_rate)\<close> pair, so the
  terminal signal first occurs at 300 seconds.
\<close>

theorem tick_terminal_at_300:
  "(tick stages elapsed = None \<longleftrightarrow> 300 \<le> elapsed)
   \<and> (elapsed < 300 \<longrightarrow> (\<exists>p. tick stages elapsed = Some p))
   \<and> tick stages 300 = None"
proof -
  have iff: "tick stages e = None \<longleftrightarrow> 300 \<le> e" for e :: real
    unfolding tick_None_iff by (auto simp: stages_def)
  have "\<exists>p. tick stages elapsed = Some p" if "elapsed < 300"
  proof -
    from that iff [of elapsed] have "tick stages elapsed \<noteq> None" by simp
    then show ?thesis by auto
  qed
  with iff [of elapsed] iff [of 300] show ?thesis by simp
qed

theorem tick_terminal_at_300_witness:
  "(299 :: real) < 300 \<and> tick stages 299 = Some (500, 50) \<and> (\<exists>p. tick stages 299 = Some p)"
proof -
  have "tick stages 299 = Some (500, 50)"
    by (simp add: stages_def Let_def)
  then show ?thesis
    using tick_terminal_at_300 [of 299] by simp
qed

section \<open>Properties of the virtual user\<close>

text \<open>
  C2. For every status code of the response to the message-history poll, the WS
  Fallback task records success exactly when the code is 200, 401 or 403, and records
  a failure (with the message naming the code) for every other code, such as 500.
\<close>

theorem ws_fallback_success_iff:
  "(websocket_fallback_simulation r = Success \<longleftrightarrow> status_code r \<in> {200, 401, 403})
   \<and> (status_code r \<notin> {200, 401, 403} \<longrightarrow>
        websocket_fallback_simulation r
          = Failure (''Unexpected status: '' @ str_int (status_code r)))
   \<and> websocket_fallback_simulation \<lparr>status_code = 500\<rparr> = Failure ''Unexpected status: 500''"
proof -
  have "str_int 500 = ''500''"
    by code_simp
  then show ?thesis
    by (simp add: websocket_fallback_simulation_def)
qed

theorem ws_fallback_success_iff_witness:
  "status_code \<lparr>status_code = 404\<rparr> \<notin> {200, 401, 403}
   \<and> websocket_fallback_simulation \<lparr>status_code = 404\<rparr> = Failure ''Unexpected status: 404''
   \<and> websocket_fallback_simulation \<lparr>status_code = 401\<rparr> = Success"
proof -
  have s: "str_int 404 = ''404''"
    by code_simp
  have "websocket_fallback_simulation \<lparr>status_code = 401\<rparr> = Success"
    using ws_fallback_success_iff [of "\<lparr>status_code = 401\<rparr>"] by simp
  then show ?thesis
    using ws_fallback_success_iff [of "\<lparr>status_code = 404\<rparr>"] s by simp
qed

text \<open>In the other two branches an exception of the request leaves the task.\<close>

lemma chaos_other_branches_propagate:
  "client \<lparr>path = ''/api/health'', timeout = None, name = ''Chaos: Latency''\<rparr> = Inl e
     \<Longrightarrow> snd (chaos_branch client ''latency'' u) = Inl e"
  "client \<lparr>path = ''/api/health'', timeout = None, name = ''Chaos: Normal''\<rparr> = Inl e
     \<Longrightarrow> snd (chaos_branch client ''normal'' u) = Inl e"
  by (simp_all add: chaos_branch_def Let_def)



text \<open>
  C4, as stated: the range of the latency pause is wider than the think-time range
  \<open>[1, 5]\<close>. It is not: the width of \<open>[0.5, 2.0]\<close> does not exceed the width of
  \<open>[1, 5]\<close>.
\<close>

theorem latency_range_not_wider_counterexample:
  "\<not> (range_width wait_time_range < range_width latency_range)"
  by (simp add: range_width_def wait_time_range_def latency_range_def)

text \<open>
  C4, amended. The latency branch draws its pause from the interval \<open>[0.5, 2.0]\<close>:
  every value drawn lies between 0.5 and 2.0. This interval has width 1.5, which is
  strictly less than the width 4 of the think-time interval \<open>[1, 5]\<close>.
\<close>

theorem latency_pause_range:
  assumes "0 \<le> u" and "u < 1"
  shows "1 / 2 \<le> latency_pause u \<and> latency_pause u \<le> 2
         \<and> latency_range = (1 / 2, 2) \<and> wait_time_range = (1, 5)
         \<and> range_width latency_range = 3 / 2 \<and> range_width wait_time_range = 4
         \<and> range_width latency_range < range_width wait_time_range"
  using assms
  by (simp add: latency_pause_def uniform_def latency_range_def wait_time_range_def
      range_width_def)

theorem latency_pause_range_witness:
  "(0::real) \<le> 1 / 2 \<and> (1 / 2 :: real) < 1 \<and> latency_pause (1 / 2) = 5 / 4
   \<and> 1 / 2 \<le> latency_pause (1 / 2) \<and> latency_pause (1 / 2) \<le> 2
   \<and> range_width latency_range < range_width wait_time_range"
proof -
  have "latency_pause (1 / 2) = 5 / 4"
    by (simp add: latency_pause_def uniform_def latency_range_def)
  then show ?thesis
    using latency_pause_range [of "1 / 2"] by simp
qed

lemma between_within:
  assumes "0 \<le> u" and "u \<le> 1" and "lo \<le> hi"
  shows "lo \<le> between lo hi u" and "between lo hi u \<le> hi"
proof -
  from assms have d: "0 \<le> hi - lo" by simp
  with assms(1) have "0 \<le> u * (hi - lo)" by simp
  then show "lo \<le> between lo hi u" by (simp add: between_def)
  from assms(2) d have "u * (hi - lo) \<le> 1 * (hi - lo)"
    by (rule mult_right_mono)
  then show "between lo hi u \<le> hi" by (simp add: between_def)
qed

text \<open>
  C5. Every value of the think time lies within the configured bounds
  \<open>[min, max]\<close>, both included, and is non-negative when the lower bound is: within
  \<open>[1, 5]\<close> for \<open>VibeZUser\<close> and within \<open>[5, 10]\<close> for \<open>ApiUser\<close>, hence never
  negative in either profile.
\<close>

theorem wait_time_within_bounds:
  assumes "0 \<le> u" and "u \<le> 1"
  shows "(min_wait \<le> max_wait \<longrightarrow>
            min_wait \<le> between min_wait max_wait u \<and> between min_wait max_wait u \<le> max_wait)
         \<and> (0 \<le> min_wait \<and> min_wait \<le> max_wait \<longrightarrow> 0 \<le> between min_wait max_wait u)
         \<and> 1 \<le> wait_time u \<and> wait_time u \<le> 5 \<and> 0 \<le> wait_time u
         \<and> 5 \<le> ApiUser_wait_time u \<and> ApiUser_wait_time u \<le> 10 \<and> 0 \<le> ApiUser_wait_time u"
proof -
  have general: "lo \<le> between lo hi u \<and> between lo hi u \<le> hi" if "lo \<le> hi" for lo hi
    using between_within [OF assms that] by simp
  have "1 \<le> wait_time u \<and> wait_time u \<le> 5"
    using general [of 1 5] by (simp add: wait_time_def wait_time_range_def)
  moreover have "5 \<le> ApiUser_wait_time u \<and> ApiUser_wait_time u \<le> 10"
    using general [of 5 10] by (simp add: ApiUser_wait_time_def)
  moreover have "0 \<le> between min_wait max_wait u" if "0 \<le> min_wait" "min_wait \<le> max_wait"
    using general [OF that(2)] that(1) by simp
  ultimately show ?thesis
    using general [of min_wait max_wait] by auto
qed

theorem wait_time_within_bounds_witness:
  "(0::real) \<le> 1 / 4 \<and> (1 / 4 :: real) \<le> 1 \<and> (1::real) \<le> 5 \<and> wait_time (1 / 4) = 2
   \<and> 1 \<le> wait_time (1 / 4) \<and> wait_time (1 / 4) \<le> 5
   \<and> 1 \<le> between 1 5 (1 / 4) \<and> between 1 5 (1 / 4) \<le> 5"
proof -
  have "wait_time (1 / 4) = 2"
    by (simp add: wait_time_def wait_time_range_def between_def)
  then show ?thesis
    using wait_time_within_bounds [of "1 / 4" 1 5] by simp
qed

text \<open>
  Counting the joint draws: the draws that satisfy a condition on each index are as many
  as the product of the two counts, and a condition on the entry at an index holds at as
  many indices as the list has such entries.
\<close>

lemma length_filter_product:
  "length (filter (\<lambda>(t, i). P t \<and> Q i) (List.product xs ys))
     = length (filter P xs) * length (filter Q ys)"
  by (induction xs) (auto simp: filter_map o_def)

lemma length_filter_nth:
  "length (filter (\<lambda>t. P (xs ! t)) [0..<length xs]) = length (filter P xs)"
proof -
  have "length (filter P (map ((!) xs) [0..<length xs]))
          = length (filter (\<lambda>t. P (xs ! t)) [0..<length xs])"
    by (simp add: filter_map o_def)
  then show ?thesis by (simp add: map_nth)
qed

lemma weighted_tasks_member:
  "task \<in> set (weighted_tasks ts) \<longleftrightarrow> (\<exists>w. 0 < w \<and> (task, w) \<in> set ts)"
  by (auto simp: weighted_tasks_def)

lemma chaos_monkey_at:
  "chaos_monkey client 0 u = chaos_branch client ''latency'' u"
  "chaos_monkey client (Suc 0) u = chaos_branch client ''drop'' u"
  "chaos_monkey client 2 u = chaos_branch client ''normal'' u"
  by (simp_all add: chaos_monkey_def choice_def chaos_actions_def)

lemma chaos_branches_distinct:
  "distinct [chaos_branch client ''latency'' u, chaos_branch client ''drop'' u,
             chaos_branch client ''normal'' u]"
  by (simp add: chaos_branch_def Let_def)

lemma chaos_branch_hits:
  assumes "action \<in> {''latency'', ''drop'', ''normal''}"
  shows "length (filter (\<lambda>i. chaos_monkey client i u = chaos_branch client action u)
                   [0..<length chaos_actions]) = 1"
proof -
  have idx: "[0..<length chaos_actions] = [0, Suc 0, 2]"
    by (simp add: chaos_actions_def upt_rec)
  from chaos_branches_distinct [of client u] assms show ?thesis
    unfolding idx by (auto simp: chaos_monkey_at)
qed

lemma chaos_branch_probability_third:
  assumes "action \<in> {''latency'', ''drop'', ''normal''}"
      and "0 < w" and "(''chaos_monkey'', w) \<in> set ts"
  shows "chaos_branch_probability ts client u action = 1 / 3"
proof -
  let ?sched = "weighted_tasks ts"
  let ?n = "length (filter (\<lambda>task. task = ''chaos_monkey'') ?sched)"
  from assms(2,3) have "''chaos_monkey'' \<in> set ?sched"
    using weighted_tasks_member by blast
  then have "filter (\<lambda>task. task = ''chaos_monkey'') ?sched \<noteq> []"
    by (simp add: filter_empty_conv)
  then have pos: "0 < ?n" by simp
  have sel: "length (filter (\<lambda>t. ?sched ! t = ''chaos_monkey'') [0..<length ?sched]) = ?n"
    by (rule length_filter_nth)
  have total: "length (chaos_draws ts) = ?n * 3"
  proof -
    have "length (chaos_draws ts)
        = length (filter (\<lambda>(t, i). ?sched ! t = ''chaos_monkey'' \<and> True)
            (List.product [0..<length ?sched] [0..<length chaos_actions]))"
      by (simp add: chaos_draws_def)
    also have "\<dots> = length (filter (\<lambda>t. ?sched ! t = ''chaos_monkey'') [0..<length ?sched])
                    * length (filter (\<lambda>i. True) [0..<length chaos_actions])"
      by (rule length_filter_product)
    finally show ?thesis by (simp add: sel chaos_actions_def)
  qed
  have hits: "length (filter (\<lambda>(t, i). chaos_monkey client i u = chaos_branch client action u)
                         (chaos_draws ts)) = ?n * 1"
  proof -
    have "filter (\<lambda>(t, i). chaos_monkey client i u = chaos_branch client action u) (chaos_draws ts)
        = filter (\<lambda>(t, i). ?sched ! t = ''chaos_monkey''
                     \<and> chaos_monkey client i u = chaos_branch client action u)
            (List.product [0..<length ?sched] [0..<length chaos_actions])"
      unfolding chaos_draws_def filter_filter
      by (rule filter_cong) auto
    then have "length (filter (\<lambda>(t, i). chaos_monkey client i u = chaos_branch client action u)
                         (chaos_draws ts))
        = length (filter (\<lambda>t. ?sched ! t = ''chaos_monkey'') [0..<length ?sched])
            * length (filter (\<lambda>i. chaos_monkey client i u = chaos_branch client action u)
                        [0..<length chaos_actions])"
      by (simp only: length_filter_product)
    then show ?thesis
      by (simp only: sel chaos_branch_hits [OF assms(1)])
  qed
  from pos show ?thesis
    unfolding chaos_branch_probability_def hits total by simp
qed

text \<open>
  C9. Whatever index \<open>random.choice\<close> draws, the chaos task selects one of the three
  labels \<open>latency\<close>, \<open>drop\<close>, \<open>normal\<close> and does what the sub-branch of that label does.
  The three labels are distinct, the three sub-branches do observably different things,
  and each label is selected by one index of three: under the uniform draw of
  \<open>random.choice\<close> each has probability 1/3 and every other label probability 0. The
  task weights play no part: for every table of task weights that gives \<open>chaos_monkey\<close>
  a positive weight, and for the configured one, each sub-branch has probability 1/3
  given that the chaos task runs.
\<close>

theorem chaos_action_uniform:
  "(i < length chaos_actions \<longrightarrow>
      (\<exists>a \<in> {''latency'', ''drop'', ''normal''}.
          choice chaos_actions i = Inr a \<and> chaos_monkey client i u = chaos_branch client a u))
   \<and> length chaos_actions = 3 \<and> distinct chaos_actions
   \<and> distinct [chaos_branch client ''latency'' u, chaos_branch client ''drop'' u,
                chaos_branch client ''normal'' u]
   \<and> chaos_action_probability ''latency'' = 1 / 3
   \<and> chaos_action_probability ''drop'' = 1 / 3
   \<and> chaos_action_probability ''normal'' = 1 / 3
   \<and> (action \<notin> {''latency'', ''drop'', ''normal''} \<longrightarrow> chaos_action_probability action = 0)
   \<and> (action \<in> {''latency'', ''drop'', ''normal''} \<and> 0 < w \<and> (''chaos_monkey'', w) \<in> set ts \<longrightarrow>
         chaos_branch_probability ts client u action = 1 / 3)
   \<and> (action \<in> {''latency'', ''drop'', ''normal''} \<longrightarrow>
         chaos_branch_probability tasks client u action = 1 / 3)"
proof -
  have idx: "[0..<length chaos_actions] = [0, 1, 2]"
    by (simp add: chaos_actions_def upt_rec)
  have c: "choice chaos_actions 0 = Inr ''latency''" "choice chaos_actions 1 = Inr ''drop''"
    "choice chaos_actions 2 = Inr ''normal''" "choice chaos_actions (Suc 0) = Inr ''drop''"
    by (simp_all add: choice_def chaos_actions_def)
  have len: "length chaos_actions = 3"
    by (simp add: chaos_actions_def)
  have p: "chaos_action_probability ''latency'' = 1 / 3"
    "chaos_action_probability ''drop'' = 1 / 3"
    "chaos_action_probability ''normal'' = 1 / 3"
    unfolding chaos_action_probability_def idx by (simp_all add: c len)
  have z: "chaos_action_probability action = 0"
    if "action \<notin> {''latency'', ''drop'', ''normal''}"
    unfolding chaos_action_probability_def idx using that by (auto simp: c)
  have m: "\<exists>a \<in> {''latency'', ''drop'', ''normal''}.
      choice chaos_actions i = Inr a \<and> chaos_monkey client i u = chaos_branch client a u"
    if "i < length chaos_actions"
  proof -
    from that len have "i = 0 \<or> i = Suc 0 \<or> i = 2" by arith
    with c chaos_monkey_at [of client u] show ?thesis by auto
  qed
  have d: "distinct chaos_actions"
    by (simp add: chaos_actions_def)
  have g: "chaos_branch_probability ts client u action = 1 / 3"
    if "action \<in> {''latency'', ''drop'', ''normal''}" "0 < w" "(''chaos_monkey'', w) \<in> set ts"
    using that by (rule chaos_branch_probability_third)
  have t: "chaos_branch_probability tasks client u action = 1 / 3"
    if "action \<in> {''latency'', ''drop'', ''normal''}"
  proof -
    have "(''chaos_monkey'', 1) \<in> set tasks" by (simp add: tasks_def)
    with that show ?thesis
      using chaos_branch_probability_third [of action 1 tasks client u] by simp
  qed
  from p z m d len g t chaos_branches_distinct [of client u] show ?thesis by blast
qed

theorem chaos_action_uniform_witness:
  "(2::nat) < length chaos_actions
   \<and> (\<exists>a \<in> {''latency'', ''drop'', ''normal''}.
         choice chaos_actions 2 = Inr a
         \<and> chaos_monkey dropping_client 2 0 = chaos_branch dropping_client a 0)
   \<and> ''retry'' \<notin> {''latency'', ''drop'', ''normal''}
   \<and> chaos_action_probability ''retry'' = 0
   \<and> ''drop'' \<in> {''latency'', ''drop'', ''normal''}
   \<and> (0::nat) < 7 \<and> (''chaos_monkey'', 7) \<in> set [(''index'', 2), (''chaos_monkey'', 7)]
   \<and> chaos_branch_probability [(''index'', 2), (''chaos_monkey'', 7)] dropping_client 0 ''drop'' = 1 / 3
   \<and> chaos_branch_probability tasks dropping_client 0 ''drop'' = 1 / 3"
proof -
  have l: "(2::nat) < length chaos_actions"
    by (simp add: chaos_actions_def)
  have r: "chaos_action_probability ''retry'' = 0"
    using chaos_action_uniform [of 2 dropping_client 0 "''retry''" 7 "[]"] by simp
  from l r show ?thesis
    using chaos_action_uniform [of 2 dropping_client 0 "''drop''" 7
        "[(''index'', 2), (''chaos_monkey'', 7)]"]
    by simp
qed

end
